theory Spec2Isabelle
  imports Complex_Main "HOL-Library.Char_ord" "HOL-Library.List_Lexorder"
begin

section \<open>Version values of bumpversion/configloader.py\<close>

text \<open>
  The module is embedded function by function. Python exceptions are values of the sum
  type \<open>error + 'a\<close> (\<open>Inl\<close> the exception). Class statements are read as they are
  written: the fields of a named tuple are a record, integers are unbounded, a method
  called on \<open>None\<close> raises \<open>AttributeError\<close>, and the version classes, which list
  \<open>Mutatable\<close> among their bases, have its \<open>mutate\<close>, the copy with one field replaced.
  Comparison of named tuples is comparison of tuples.
\<close>

datatype error =
  TypeError | ValueError | AttributeError | IndexError | KeyError | RecursionError

subsection \<open>is\_pos\_int and the module-level validate\<close>

text \<open>\<open>is_pos_int(n)\<close>: \<open>isinstance(n, int) and n >= 0\<close>; the fields are typed \<open>int\<close> here.\<close>

definition is_pos_int :: "int \<Rightarrow> bool" where
  "is_pos_int n = (n \<ge> 0)"

text \<open>
  \<open>validate(obj)\<close>: \<open>obj.validate()\<close> unless \<open>obj\<close> is \<open>None\<close>; the method of the object's
  class is the first argument. No method of the module calls this function.
\<close>

definition validate :: "('a \<Rightarrow> error + unit) \<Rightarrow> 'a option \<Rightarrow> error + unit" where
  "validate validate_method obj = (case obj of None \<Rightarrow> Inr () | Some x \<Rightarrow> validate_method x)"

subsection \<open>SubreleaseType\<close>

datatype SubreleaseType = ALPHA | BETA | RELEASE_CANDIDATE | POST

fun SubreleaseType_value :: "SubreleaseType \<Rightarrow> string" where
  "SubreleaseType_value ALPHA = ''a''"
| "SubreleaseType_value BETA = ''b''"
| "SubreleaseType_value RELEASE_CANDIDATE = ''rc''"
| "SubreleaseType_value POST = ''post''"

text \<open>\<open>list(SubreleaseType)\<close>: the members in the order the class body declares them.\<close>

definition SubreleaseType_members :: "SubreleaseType list" where
  "SubreleaseType_members = [ALPHA, BETA, RELEASE_CANDIDATE, POST]"

text \<open>
  \<open>SubreleaseType(obj)\<close>: the member whose value is \<open>obj\<close>, \<open>ValueError\<close> when there is
  none. A member is a \<open>str\<close> equal to its value, so an object is given by its string.
\<close>

definition SubreleaseType_call :: "SubreleaseType list \<Rightarrow> string \<Rightarrow> error + SubreleaseType" where
  "SubreleaseType_call decl obj =
     (case find (\<lambda>m. SubreleaseType_value m = obj) decl of
        None \<Rightarrow> Inl ValueError
      | Some m \<Rightarrow> Inr m)"

text \<open>\<open>lst.index(x)\<close>: the first position of \<open>x\<close>, \<open>ValueError\<close> when it is absent.\<close>

fun list_index :: "'a list \<Rightarrow> 'a \<Rightarrow> error + nat" where
  "list_index [] x = Inl ValueError"
| "list_index (y # ys) x =
     (if y = x then Inr 0
      else (case list_index ys x of Inl e \<Rightarrow> Inl e | Inr i \<Rightarrow> Inr (Suc i)))"

text \<open>
  \<open>SubreleaseType.order\<close>, with the declared member list as a parameter: the lookup is
  inside the \<open>try\<close> (a \<open>ValueError\<close> gives 2.5), the \<open>index\<close> call is outside it.
\<close>

definition order_in :: "SubreleaseType list \<Rightarrow> string \<Rightarrow> error + rat" where
  "order_in decl obj =
     (case SubreleaseType_call decl obj of
        Inl ValueError \<Rightarrow> Inr (5 / 2)
      | Inl e \<Rightarrow> Inl e
      | Inr m \<Rightarrow> (case list_index decl m of Inl e \<Rightarrow> Inl e | Inr i \<Rightarrow> Inr (of_nat i)))"

definition SubreleaseType_order :: "string \<Rightarrow> error + rat" where
  "SubreleaseType_order obj = order_in SubreleaseType_members obj"

text \<open>The four comparison methods: \<open>order(self) OP order(other)\<close>.\<close>

definition order_op :: "(rat \<Rightarrow> rat \<Rightarrow> bool) \<Rightarrow> string \<Rightarrow> string \<Rightarrow> error + bool" where
  "order_op opr self other =
     (case SubreleaseType_order self of
        Inl e \<Rightarrow> Inl e
      | Inr a \<Rightarrow> (case SubreleaseType_order other of Inl e \<Rightarrow> Inl e | Inr b \<Rightarrow> Inr (opr a b)))"

definition SubreleaseType_lt :: "string \<Rightarrow> string \<Rightarrow> error + bool" where
  "SubreleaseType_lt self other = order_op (<) self other"

definition SubreleaseType_le :: "string \<Rightarrow> string \<Rightarrow> error + bool" where
  "SubreleaseType_le self other = order_op (\<le>) self other"

definition SubreleaseType_ge :: "string \<Rightarrow> string \<Rightarrow> error + bool" where
  "SubreleaseType_ge self other = order_op (\<ge>) self other"

definition SubreleaseType_gt :: "string \<Rightarrow> string \<Rightarrow> error + bool" where
  "SubreleaseType_gt self other = order_op (>) self other"

definition is_pre :: "SubreleaseType \<Rightarrow> bool" where
  "is_pre self = (self \<noteq> POST)"

text \<open>
  The precedence table of the specification, written out for comparison with
  \<open>SubreleaseType_order\<close>: alpha, beta, release candidate, anything else, post.
\<close>

definition precedence_table :: "string \<Rightarrow> rat" where
  "precedence_table obj =
     (if obj = ''a'' then 0 else if obj = ''b'' then 1 else if obj = ''rc'' then 2
      else if obj = ''post'' then 3 else 5 / 2)"

subsection \<open>Subrelease\<close>

datatype Subrelease = Subrelease (sub_type: SubreleaseType) (sub_number: int)

definition Subrelease_validate :: "Subrelease \<Rightarrow> error + unit" where
  "Subrelease_validate self =
     (if \<not> is_pos_int (sub_number self) then Inl ValueError else Inr ())"

text \<open>
  \<open>Subrelease.__gt__(self, other)\<close>. The first branch calls \<open>other.is_pre()\<close> on
  \<open>None\<close>; the second evaluates \<open>other > self\<close>, which is this method again with the
  operands exchanged. The first argument bounds how deep this call of itself may nest
  before the interpreter's recursion limit ends it with \<open>RecursionError\<close>; the
  properties below hold for every bound. The \<open>NotImplemented\<close> branch needs an
  operand that is neither \<open>None\<close> nor a Subrelease, which the subrelease field of a
  version never holds.
\<close>

fun Subrelease_gt :: "nat \<Rightarrow> Subrelease \<Rightarrow> Subrelease option \<Rightarrow> error + bool" where
  "Subrelease_gt depth self None = Inl AttributeError"
| "Subrelease_gt 0 self (Some other) = Inl RecursionError"
| "Subrelease_gt (Suc depth) self (Some other) = Subrelease_gt depth other (Some self)"

text \<open>\<open>__ge__\<close>: \<open>self == other or self > other\<close>; \<open>__lt__\<close>: \<open>not (self >= other)\<close>;
  \<open>__le__\<close>: \<open>self == other or self < other\<close>. Equality is that of the tuples.\<close>

definition Subrelease_ge :: "nat \<Rightarrow> Subrelease \<Rightarrow> Subrelease option \<Rightarrow> error + bool" where
  "Subrelease_ge depth self other =
     (if Some self = other then Inr True else Subrelease_gt depth self other)"

definition Subrelease_lt :: "nat \<Rightarrow> Subrelease \<Rightarrow> Subrelease option \<Rightarrow> error + bool" where
  "Subrelease_lt depth self other =
     (case Subrelease_ge depth self other of Inl e \<Rightarrow> Inl e | Inr b \<Rightarrow> Inr (\<not> b))"

definition Subrelease_le :: "nat \<Rightarrow> Subrelease \<Rightarrow> Subrelease option \<Rightarrow> error + bool" where
  "Subrelease_le depth self other =
     (if Some self = other then Inr True else Subrelease_lt depth self other)"

subsection \<open>Release\<close>

type_synonym Release = "int list"

text \<open>Sequencing: an exception of the first step ends the computation.\<close>

definition and_then :: "error + 'a \<Rightarrow> ('a \<Rightarrow> error + 'b) \<Rightarrow> error + 'b" where
  "and_then r f = (case r of Inl e \<Rightarrow> Inl e | Inr x \<Rightarrow> f x)"

text \<open>
  Python's index into a sequence of length \<open>n\<close>: a negative index counts from the end,
  and an index outside \<open>-n .. n-1\<close> raises \<open>IndexError\<close>.
\<close>

definition py_index :: "nat \<Rightarrow> int \<Rightarrow> error + nat" where
  "py_index n i =
     (if 0 \<le> i \<and> i < int n then Inr (nat i)
      else if i < 0 \<and> - int n \<le> i then Inr (nat (int n + i))
      else Inl IndexError)"

definition Release_getitem :: "Release \<Rightarrow> int \<Rightarrow> error + int" where
  "Release_getitem self i = and_then (py_index (length self) i) (\<lambda>k. Inr (self ! k))"

text \<open>\<open>Release.mutate\<close>: \<open>lst = list(self); lst[key] = value; Release(lst)\<close>.\<close>

definition Release_mutate :: "Release \<Rightarrow> int \<Rightarrow> int \<Rightarrow> error + Release" where
  "Release_mutate self key v = and_then (py_index (length self) key) (\<lambda>k. Inr (self[k := v]))"

definition Release_validate :: "Release \<Rightarrow> error + unit" where
  "Release_validate self =
     (if length self < 1 then Inl ValueError
      else if \<not> list_all is_pos_int self then Inl ValueError
      else Inr ())"

text \<open>The loop of \<open>bump\<close>: \<open>while len(parts) < index: parts.append(0)\<close>.\<close>

function bump_pad :: "int list \<Rightarrow> int \<Rightarrow> int list" where
  "bump_pad parts index =
     (if int (length parts) < index then bump_pad (parts @ [0]) index else parts)"
  by pat_completeness auto
termination
  by (relation "measure (\<lambda>(parts, index). nat (index - int (length parts)))") auto

declare bump_pad.simps [simp del]

definition Release_bump :: "Release \<Rightarrow> int \<Rightarrow> int \<Rightarrow> error + Release" where
  "Release_bump self index step =
     (if index < int (length self) then
        and_then (Release_getitem self index) (\<lambda>x. Release_mutate self index (x + step))
      else if step > 0 then Inr (bump_pad self index @ [step])
      else Inl ValueError)"

subsection \<open>String forms\<close>








subsection \<open>FinalVersion, PublicVersion, Version\<close>

record FinalVersion =
  fv_epoch :: "int option"
  fv_release :: Release

record PublicVersion =
  pv_epoch :: "int option"
  pv_release :: Release
  pv_subrelease :: "Subrelease option"
  pv_dev :: "int option"

record Version =
  v_epoch :: "int option"
  v_release :: Release
  v_subrelease :: "Subrelease option"
  v_dev :: "int option"
  v_local :: "string option"

definition FinalVersion_validate :: "FinalVersion \<Rightarrow> error + unit" where
  "FinalVersion_validate self =
     (if fv_epoch self \<noteq> None \<and> \<not> is_pos_int (the (fv_epoch self)) then Inl ValueError
      else Release_validate (fv_release self))"


definition FinalVersion_comparable :: "FinalVersion \<Rightarrow> FinalVersion" where
  "FinalVersion_comparable self =
     (if fv_epoch self = None then self\<lparr>fv_epoch := Some 0\<rparr> else self)"

definition PublicVersion_final :: "PublicVersion \<Rightarrow> FinalVersion" where
  "PublicVersion_final self = \<lparr>fv_epoch = pv_epoch self, fv_release = pv_release self\<rparr>"

text \<open>
  \<open>PublicVersion.validate\<close> calls \<open>self.subrelease.validate()\<close> on the field as it is:
  on \<open>None\<close> the attribute lookup raises \<open>AttributeError\<close>.
\<close>

definition PublicVersion_validate :: "PublicVersion \<Rightarrow> error + unit" where
  "PublicVersion_validate self =
     and_then (FinalVersion_validate (PublicVersion_final self)) (\<lambda>_.
     and_then (case pv_subrelease self of
                 None \<Rightarrow> Inl AttributeError
               | Some s \<Rightarrow> Subrelease_validate s) (\<lambda>_.
     if pv_dev self \<noteq> None \<and> \<not> is_pos_int (the (pv_dev self)) then Inl ValueError
     else Inr ()))"


definition PublicVersion_comparable :: "PublicVersion \<Rightarrow> PublicVersion" where
  "PublicVersion_comparable self =
     (let out = (if pv_epoch self = None then self\<lparr>pv_epoch := Some 0\<rparr> else self)
      in if pv_dev out = None then out\<lparr>pv_dev := Some (- 1)\<rparr> else out)"

text \<open>
  \<open>Version.public\<close>: \<open>PublicVersion(self.epoch, self.release, self.subrelease)\<close>; the
  fourth field takes its default, \<open>None\<close>.
\<close>

definition Version_public :: "Version \<Rightarrow> PublicVersion" where
  "Version_public self =
     \<lparr>pv_epoch = v_epoch self, pv_release = v_release self,
      pv_subrelease = v_subrelease self, pv_dev = None\<rparr>"

definition Version_final :: "Version \<Rightarrow> FinalVersion" where
  "Version_final self = PublicVersion_final (Version_public self)"

definition local_chars :: "char set" where
  "local_chars =
     set (''abcdefghijklmnopqrstuvwxyzABCDEFGHIJKLMNOPQRSTUVWXYZ'' @ ''0123456789'' @ ''.'')"

text \<open>
  \<open>Version.validate\<close>. \<open>self.local[0]\<close> on the empty string raises \<open>IndexError\<close>.
\<close>

definition Version_validate :: "Version \<Rightarrow> error + unit" where
  "Version_validate self =
     and_then (PublicVersion_validate (Version_public self)) (\<lambda>_.
     case v_local self of
       None \<Rightarrow> Inr ()
     | Some l \<Rightarrow>
         if \<not> list_all (\<lambda>c. c \<in> local_chars) l then Inl ValueError
         else if l = [] then Inl IndexError
         else if hd l = CHR ''.'' \<or> last l = CHR ''.'' then Inl ValueError
         else Inr ())"


definition Version_comparable :: "Version \<Rightarrow> Version" where
  "Version_comparable self =
     (let out = (if v_epoch self = None then self\<lparr>v_epoch := Some 0\<rparr> else self);
          out = (if v_dev out = None then out\<lparr>v_dev := Some (- 1)\<rparr> else out)
      in if v_local out = None then out\<lparr>v_local := Some []\<rparr> else out)"

subsection \<open>Version.parse\<close>












subsection \<open>Comparison of tuples\<close>

text \<open>
  The version classes define no comparison of their own, so \<open>==\<close>, \<open>>\<close> and \<open><\<close> on
  them are those of tuples: the first position where the items are not equal decides,
  by the operator applied to the two items there; when there is none within the shorter
  tuple the lengths decide (what is left of them after the common prefix, which orders
  them as the full lengths do).
\<close>

fun tuple_cmp ::
  "('a \<Rightarrow> 'a \<Rightarrow> error + bool) \<Rightarrow> (nat \<Rightarrow> nat \<Rightarrow> bool) \<Rightarrow> 'a list \<Rightarrow> 'a list \<Rightarrow> error + bool"
where
  "tuple_cmp item_op len_op (x # xs) (y # ys) =
     (if x = y then tuple_cmp item_op len_op xs ys else item_op x y)"
| "tuple_cmp item_op len_op xs ys = Inr (len_op (length xs) (length ys))"

text \<open>
  The items of a version tuple, by the type of the field: epoch and dev are an integer
  or \<open>None\<close>, the release is a tuple of integers, the subrelease a Subrelease or \<open>None\<close>,
  the local label a string or \<open>None\<close>.
\<close>

datatype item =
  Num "int option" | Rel Release | Sub "Subrelease option" | Label "string option"

text \<open>
  \<open>x > y\<close> on two items. \<open>None\<close> against an integer or a string is a \<open>TypeError\<close>.
  \<open>None > s\<close> for a Subrelease \<open>s\<close> falls to the reflected \<open>s.__lt__(None)\<close>. Two items
  of different kinds never meet: every version class has its fields in the same order.
\<close>

fun item_gt :: "nat \<Rightarrow> item \<Rightarrow> item \<Rightarrow> error + bool" where
  "item_gt depth (Num (Some i)) (Num (Some j)) = Inr (i > j)"
| "item_gt depth (Rel r) (Rel q) = tuple_cmp (\<lambda>i j. Inr (i > j)) (>) r q"
| "item_gt depth (Sub (Some a)) (Sub other) = Subrelease_gt depth a other"
| "item_gt depth (Sub None) (Sub (Some b)) = Subrelease_lt depth b None"
| "item_gt depth (Label (Some s)) (Label (Some t)) = Inr (s > t)"
| "item_gt depth x y = Inl TypeError"

fun item_lt :: "nat \<Rightarrow> item \<Rightarrow> item \<Rightarrow> error + bool" where
  "item_lt depth (Num (Some i)) (Num (Some j)) = Inr (i < j)"
| "item_lt depth (Rel r) (Rel q) = tuple_cmp (\<lambda>i j. Inr (i < j)) (<) r q"
| "item_lt depth (Sub (Some a)) (Sub other) = Subrelease_lt depth a other"
| "item_lt depth (Sub None) (Sub (Some b)) = Subrelease_gt depth b None"
| "item_lt depth (Label (Some s)) (Label (Some t)) = Inr (s < t)"
| "item_lt depth x y = Inl TypeError"

text \<open>
  The operands of \<open>compare\<close>: a value of one of the three version classes, or an object
  that is no version and has no \<open>_comparable\<close> method (\<open>None\<close> or an integer).
\<close>

datatype pyobj =
  Final FinalVersion | Public PublicVersion | Full Version | NonVersion "int option"

fun items :: "pyobj \<Rightarrow> item list" where
  "items (Final v) = [Num (fv_epoch v), Rel (fv_release v)]"
| "items (Public v) =
     [Num (pv_epoch v), Rel (pv_release v), Sub (pv_subrelease v), Num (pv_dev v)]"
| "items (Full v) =
     [Num (v_epoch v), Rel (v_release v), Sub (v_subrelease v), Num (v_dev v),
      Label (v_local v)]"
| "items (NonVersion x) = []"

fun obj_eq :: "pyobj \<Rightarrow> pyobj \<Rightarrow> bool" where
  "obj_eq (NonVersion x) (NonVersion y) = (x = y)"
| "obj_eq (NonVersion x) b = False"
| "obj_eq a (NonVersion y) = False"
| "obj_eq a b = (items a = items b)"

fun obj_gt :: "nat \<Rightarrow> pyobj \<Rightarrow> pyobj \<Rightarrow> error + bool" where
  "obj_gt depth (NonVersion x) (NonVersion y) = item_gt depth (Num x) (Num y)"
| "obj_gt depth (NonVersion x) b = Inl TypeError"
| "obj_gt depth a (NonVersion y) = Inl TypeError"
| "obj_gt depth a b = tuple_cmp (item_gt depth) (>) (items a) (items b)"

fun obj_lt :: "nat \<Rightarrow> pyobj \<Rightarrow> pyobj \<Rightarrow> error + bool" where
  "obj_lt depth (NonVersion x) (NonVersion y) = item_lt depth (Num x) (Num y)"
| "obj_lt depth (NonVersion x) b = Inl TypeError"
| "obj_lt depth a (NonVersion y) = Inl TypeError"
| "obj_lt depth a b = tuple_cmp (item_lt depth) (<) (items a) (items b)"

subsection \<open>compare\<close>

text \<open>
  The module's \<open>_compare(first, second)\<close>: 0, 1 or -1 from \<open>==\<close>, \<open>>\<close>, \<open><\<close> tried in this
  order; when none holds the function ends without a \<open>return\<close>, which gives \<open>None\<close>.
\<close>

definition compare_raw :: "nat \<Rightarrow> pyobj \<Rightarrow> pyobj \<Rightarrow> error + int option" where
  "compare_raw depth first second =
     (if obj_eq first second then Inr (Some 0)
      else and_then (obj_gt depth first second) (\<lambda>g.
        if g then Inr (Some 1)
        else and_then (obj_lt depth first second) (\<lambda>l.
          if l then Inr (Some (- 1)) else Inr None)))"

text \<open>\<open>obj._comparable()\<close>: the method of the object's class, \<open>AttributeError\<close> without one.\<close>

fun comparable :: "pyobj \<Rightarrow> error + pyobj" where
  "comparable (Final v) = Inr (Final (FinalVersion_comparable v))"
| "comparable (Public v) = Inr (Public (PublicVersion_comparable v))"
| "comparable (Full v) = Inr (Full (Version_comparable v))"
| "comparable (NonVersion x) = Inl AttributeError"


text \<open>
  \<open>Comparable._compare\<close>, the method of the abstract class that no version class
  inherits: whatever the \<open>try\<close> and \<open>except\<close> blocks produce, the \<open>finally\<close> block
  raises \<open>TypeError\<close> in its place.
\<close>

definition Comparable_compare :: "nat \<Rightarrow> pyobj \<Rightarrow> pyobj \<Rightarrow> error + int option" where
  "Comparable_compare depth self other =
     (let attempt =
        (case compare_raw depth self other of
           Inl TypeError \<Rightarrow>
             and_then (comparable self) (\<lambda>f.
             and_then (comparable other) (\<lambda>s. compare_raw depth f s))
         | r \<Rightarrow> r)
      in Inl TypeError)"


section \<open>Properties\<close>

subsection \<open>Subrelease comparison\<close>

lemma Subrelease_gt_Some: "Subrelease_gt depth a (Some b) = Inl RecursionError"
  by (induction depth arbitrary: a b) simp_all

lemma Subrelease_lt_Some:
  "Subrelease_lt depth a (Some b) = (if a = b then Inr False else Inl RecursionError)"
  by (simp add: Subrelease_lt_def Subrelease_ge_def Subrelease_gt_Some)

lemma Subrelease_lt_None: "Subrelease_lt depth a None = Inl AttributeError"
  by (simp add: Subrelease_lt_def Subrelease_ge_def)

text \<open>
  C3. Two Subreleases are to compare by type precedence, then by number. The code never
  gets there: \<open>a > b\<close> on two Subreleases calls itself with the operands exchanged until
  the interpreter's recursion limit ends it, whatever the limit, the types and the
  numbers; \<open>a < b\<close> answers \<open>False\<close> for equal operands and ends the same way for all
  others. Neither consults \<open>SubreleaseType.order\<close> or the numbers.
\<close>

theorem Subrelease_compare_recursion:
  "Subrelease_gt depth a (Some b) = Inl RecursionError \<and>
   Subrelease_lt depth a (Some b) = (if a = b then Inr False else Inl RecursionError)"
  by (simp add: Subrelease_lt_Some Subrelease_gt_Some)

text \<open>
  C4. A Subrelease compared with an absent subrelease is to be greater for a post type
  and less for a pre-release type. The code asks \<open>None\<close> for \<open>is_pre()\<close>: both \<open>s > None\<close>
  and \<open>s < None\<close> raise \<open>AttributeError\<close> for every Subrelease \<open>s\<close>.
\<close>

theorem Subrelease_against_None:
  "Subrelease_gt depth s None = Inl AttributeError \<and>
   Subrelease_lt depth s None = Inl AttributeError"
  by (simp add: Subrelease_lt_None)

subsection \<open>SubreleaseType precedence\<close>

lemma order_table: "SubreleaseType_order obj = Inr (precedence_table obj)"
  by (simp add: SubreleaseType_order_def order_in_def SubreleaseType_call_def
      SubreleaseType_members_def precedence_table_def)

text \<open>
  C7, as amended. For every pair of compared values the four comparison methods decide
  by the table alpha 0, beta 1, release candidate 2, post 3 and 2.5 for any value that
  is no member, so alpha < beta < release candidate < unrecognized < post; and the rank
  of a member is its position in the declared member list, not a table of its own.
\<close>

theorem SubreleaseType_precedence:
  "SubreleaseType_order obj = Inr (precedence_table obj) \<and>
   SubreleaseType_lt x y = Inr (precedence_table x < precedence_table y) \<and>
   SubreleaseType_le x y = Inr (precedence_table x \<le> precedence_table y) \<and>
   SubreleaseType_ge x y = Inr (precedence_table x \<ge> precedence_table y) \<and>
   SubreleaseType_gt x y = Inr (precedence_table x > precedence_table y) \<and>
   SubreleaseType_order (SubreleaseType_value m) =
     and_then (list_index SubreleaseType_members m) (\<lambda>i. Inr (of_nat i))"
proof -
  have "SubreleaseType_order (SubreleaseType_value m) =
      and_then (list_index SubreleaseType_members m) (\<lambda>i. Inr (of_nat i))"
    by (cases m)
      (simp_all add: order_table precedence_table_def and_then_def SubreleaseType_members_def)
  then show ?thesis
    by (simp add: SubreleaseType_lt_def SubreleaseType_le_def SubreleaseType_ge_def
        SubreleaseType_gt_def order_op_def order_table)
qed

text \<open>
  C7 as stated fails on "independently of declaration order": with the same four
  members declared post first, \<open>order\<close> ranks post 0 and alpha 1, post below alpha.
\<close>

theorem order_follows_declaration:
  "order_in [POST, ALPHA, BETA, RELEASE_CANDIDATE] ''post'' = Inr 0 \<and>
   order_in [POST, ALPHA, BETA, RELEASE_CANDIDATE] ''a'' = Inr 1"
  by (simp add: order_in_def SubreleaseType_call_def)

subsection \<open>Release.bump\<close>

lemma bump_pad_eq:
  "bump_pad parts index = parts @ replicate (nat (index - int (length parts))) 0"
proof (induction parts index rule: bump_pad.induct)
  case (1 parts index)
  show ?case
  proof (cases "int (length parts) < index")
    case True
    then have "nat (index - int (length parts)) =
        Suc (nat (index - int (length (parts @ [0]))))"
      by simp
    with True 1 show ?thesis
      by (subst bump_pad.simps) (simp add: replicate_app_Cons_same)
  next
    case False
    then show ?thesis
      by (subst bump_pad.simps) simp
  qed
qed

text \<open>
  C5, as amended. For a Release \<open>r\<close>, a position \<open>i\<close> and a step: when \<open>i\<close> is within
  \<open>r\<close>, \<open>bump\<close> returns \<open>r\<close> with the step added at position \<open>i\<close>, whatever the sign of
  the sum; when \<open>i\<close> is at or beyond the end and the step is positive, it returns \<open>r\<close>
  extended with zeros up to position \<open>i\<close> and the step at position \<open>i\<close>; when \<open>i\<close> is at
  or beyond the end and the step is not positive, it raises \<open>ValueError\<close>.
\<close>

theorem Release_bump_cases:
  "(0 \<le> i \<and> i < int (length r) \<longrightarrow>
      Release_bump r i step = Inr (r[nat i := r ! nat i + step])) \<and>
   (int (length r) \<le> i \<and> 0 < step \<longrightarrow>
      Release_bump r i step = Inr (r @ replicate (nat i - length r) 0 @ [step])) \<and>
   (int (length r) \<le> i \<and> step \<le> 0 \<longrightarrow> Release_bump r i step = Inl ValueError)"
  by (auto simp: Release_bump_def Release_getitem_def Release_mutate_def py_index_def
      and_then_def bump_pad_eq nat_diff_distrib')

theorem Release_bump_cases_witness:
  "Release_bump [1, 0] 1 (- 5) = Inr [1, - 5] \<and>
   Release_bump [1, 0] 4 2 = Inr [1, 0, 0, 0, 2] \<and>
   Release_bump [1, 0] 2 0 = Inl ValueError"
  using Release_bump_cases [of 1 "[1, 0]" "- 5"] Release_bump_cases [of 4 "[1, 0]" 2]
    Release_bump_cases [of 2 "[1, 0]" 0]
  by (simp add: numeral_eq_Suc)

text \<open>
  C5 as stated fails on "the resulting component stays >= 0": \<open>bump\<close> checks nothing,
  and \<open>(1, 0)\<close> bumped at position 1 by -5 is \<open>(1, -5)\<close>, a Release that \<open>validate\<close>
  refuses.
\<close>

theorem Release_bump_negative_component:
  "Release_bump [1, 0] 1 (- 5) = Inr [1, - 5] \<and> Release_validate [1, - 5] = Inl ValueError"
  by (simp add: Release_bump_def Release_getitem_def Release_mutate_def py_index_def
      and_then_def Release_validate_def is_pos_int_def)

subsection \<open>Version.public and Version.validate\<close>

text \<open>
  C10. The projection to a PublicVersion is to keep epoch, release, subrelease and dev.
  The code passes three arguments: epoch, release and subrelease are kept, and the dev
  number of every Version is replaced by \<open>None\<close>.
\<close>

theorem Version_public_drops_dev:
  "pv_epoch (Version_public v) = v_epoch v \<and>
   pv_release (Version_public v) = v_release v \<and>
   pv_subrelease (Version_public v) = v_subrelease v \<and>
   pv_dev (Version_public v) = None \<and>
   pv_dev (Version_public
     \<lparr>v_epoch = None, v_release = [1, 0], v_subrelease = Some (Subrelease ALPHA 1),
      v_dev = Some 3, v_local = None\<rparr>) \<noteq> Some 3"
  by (simp add: Version_public_def)

text \<open>
  C6. \<open>validate\<close> is to raise exactly when an invariant is violated. In the code no
  Version without a subrelease validates (the version 1.0.0 with every optional field
  absent raises \<open>AttributeError\<close>), and a negative dev number is accepted.
\<close>

theorem Version_validate_defects:
  "Version_validate (v\<lparr>v_subrelease := None\<rparr>) \<noteq> Inr () \<and>
   Version_validate
     \<lparr>v_epoch = None, v_release = [1, 0, 0], v_subrelease = None, v_dev = None,
      v_local = None\<rparr> = Inl AttributeError \<and>
   Version_validate
     \<lparr>v_epoch = None, v_release = [1, 0, 0], v_subrelease = Some (Subrelease ALPHA 1),
      v_dev = Some (- 4), v_local = None\<rparr> = Inr ()"
  by (simp add: Version_validate_def PublicVersion_validate_def Version_public_def
      and_then_def FinalVersion_validate_def PublicVersion_final_def Release_validate_def
      is_pos_int_def Subrelease_validate_def split: sum.splits)

subsection \<open>Version.parse\<close>





subsection \<open>String form of a FinalVersion\<close>





subsection \<open>compare\<close>





subsection \<open>compare against its specification\<close>













text \<open>The method of the unused abstract class raises on every pair of operands.\<close>

lemma Comparable_compare_raises: "Comparable_compare depth a b = Inl TypeError"
  by (simp add: Comparable_compare_def)


end
